theory Spec2Isabelle
  imports Main "HOL-Library.Finite_Map" "HOL-Library.Sublist"
begin

section \<open>Python values and exceptions\<close>

text \<open>
  The raw records handled by \<^verbatim>\<open>sonar/findings.py\<close> are decoded JSON documents. A value is
  \<^verbatim>\<open>None\<close>, an integer, a string, a list or a dictionary with string keys. JSON booleans are
  the integers 0 and 1 (in Python \<^verbatim>\<open>bool\<close> is a subclass of \<^verbatim>\<open>int\<close> and \<^verbatim>\<open>True == 1\<close>), so that
  HOL equality on \<open>pyval\<close> is Python's \<^verbatim>\<open>==\<close>; dictionaries are finite maps, whose equality
  does not depend on insertion order. Floating point numbers are outside the model.
\<close>

datatype pyval =
    PNone
  | PInt int
  | PStr string
  | PList "pyval list"
  | PDict "(string, pyval) fmap"

datatype error = TypeError | KeyError | ValueError | NotImplementedError

text \<open>\<^verbatim>\<open>d.get(k, default)\<close> on a dictionary.\<close>

definition get :: "(string, 'a) fmap \<Rightarrow> string \<Rightarrow> 'a \<Rightarrow> 'a" where
  "get d k dflt = (case fmlookup d k of None \<Rightarrow> dflt | Some v \<Rightarrow> v)"

section \<open>The builtin \<^verbatim>\<open>int()\<close>\<close>

text \<open>
  \<^verbatim>\<open>int(s)\<close> on a string strips surrounding white space (tab, line feed, vertical tab, form
  feed, carriage return and space, for an ASCII string), accepts one sign, and then needs a
  non-empty run of decimal digits in which single underscores may separate digits. Anything
  else raises \<^verbatim>\<open>ValueError\<close>. On an integer it is the identity; on \<^verbatim>\<open>None\<close>, a list or a
  dictionary it raises \<^verbatim>\<open>TypeError\<close>. Strings are ASCII here.
\<close>

definition is_space :: "char \<Rightarrow> bool" where
  "is_space c = (of_char c \<in> {9::nat, 10, 11, 12, 13, 32})"

definition is_digit :: "char \<Rightarrow> bool" where
  "is_digit c = (48 \<le> (of_char c :: nat) \<and> (of_char c :: nat) \<le> 57)"

definition digit_val :: "char \<Rightarrow> int" where
  "digit_val c = int (of_char c) - 48"

definition strip :: "string \<Rightarrow> string" where
  "strip s = rev (dropWhile is_space (rev (dropWhile is_space s)))"

fun parse_digits :: "int \<Rightarrow> string \<Rightarrow> int option" where
  "parse_digits acc [] = Some acc"
| "parse_digits acc [c] = (if is_digit c then Some (10 * acc + digit_val c) else None)"
| "parse_digits acc (c # d # ds) =
     (if is_digit c then parse_digits (10 * acc + digit_val c) (d # ds)
      else if c = CHR ''_'' \<and> is_digit d then parse_digits (10 * acc + digit_val d) ds
      else None)"

definition parse_unsigned :: "string \<Rightarrow> int option" where
  "parse_unsigned s =
     (case s of
        [] \<Rightarrow> None
      | d # ds \<Rightarrow> if is_digit d then parse_digits (digit_val d) ds else None)"

definition py_int_str :: "string \<Rightarrow> int option" where
  "py_int_str s =
     (case strip s of
        [] \<Rightarrow> None
      | c # cs \<Rightarrow>
          if c = CHR ''-'' then map_option uminus (parse_unsigned cs)
          else if c = CHR ''+'' then parse_unsigned cs
          else parse_unsigned (c # cs))"

fun py_int :: "pyval \<Rightarrow> error + int" where
  "py_int (PInt n) = Inr n"
| "py_int (PStr s) = (case py_int_str s of None \<Rightarrow> Inl ValueError | Some n \<Rightarrow> Inr n)"
| "py_int PNone = Inl TypeError"
| "py_int (PList xs) = Inl TypeError"
| "py_int (PDict d) = Inl TypeError"

text \<open>The value of a run of decimal digits, most significant digit first.\<close>

definition decimal :: "string \<Rightarrow> int" where
  "decimal s = foldl (\<lambda>a c. 10 * a + digit_val c) 0 s"

section \<open>The Finding object\<close>

text \<open>
  The attributes of \<^verbatim>\<open>Finding\<close> (and \<^verbatim>\<open>key\<close>, \<^verbatim>\<open>_json\<close> of its base class). Attributes filled
  from the raw record hold whatever value the record has. The two dates are instants, absent
  until a record is loaded.
\<close>

record finding =
  key :: string
  json :: "(string, pyval) fmap option"
  severity :: pyval
  type :: pyval
  author :: pyval
  assignee :: pyval
  status :: pyval
  resolution :: pyval
  rule :: pyval
  projectKey :: pyval
  language :: pyval
  line :: pyval
  component :: pyval
  message :: pyval
  creation_date :: "int option"
  modification_date :: "int option"
  hash :: pyval
  branch :: pyval
  pull_request :: pyval

text \<open>\<^verbatim>\<open>Finding.__init__\<close> before \<^verbatim>\<open>_load\<close>: every attribute is \<^verbatim>\<open>None\<close>.\<close>

definition init :: "string \<Rightarrow> finding" where
  "init k = \<lparr> key = k, json = None, severity = PNone, type = PNone, author = PNone,
     assignee = PNone, status = PNone, resolution = PNone, rule = PNone, projectKey = PNone,
     language = PNone, line = PNone, component = PNone, message = PNone,
     creation_date = None, modification_date = None, hash = PNone, branch = PNone,
     pull_request = PNone \<rparr>"

subsection \<open>\<^verbatim>\<open>_load_common\<close>\<close>

definition load_common :: "finding \<Rightarrow> (string, pyval) fmap \<Rightarrow> error + finding" where
  "load_common self jsondata =
     (let self = self\<lparr>json := Some (case json self of None \<Rightarrow> jsondata
                                      | Some j \<Rightarrow> fmadd j jsondata)\<rparr>;
          self = self\<lparr>author := get jsondata ''author'' PNone\<rparr>;
          self = self\<lparr>type := get jsondata ''type'' PNone\<rparr>;
          self = self\<lparr>severity := get jsondata ''severity'' PNone\<rparr>;
          self = self\<lparr>message := get jsondata ''message'' PNone\<rparr>
      in case fmlookup jsondata ''status'' of
           None \<Rightarrow> Inl KeyError
         | Some st \<Rightarrow>
            (let self = self\<lparr>status := st\<rparr>;
                 self = self\<lparr>resolution := get jsondata ''resolution'' PNone\<rparr>;
                 self = self\<lparr>rule := get jsondata ''rule'' (get jsondata ''ruleReference'' PNone)\<rparr>;
                 self = self\<lparr>line := get jsondata ''line'' (get jsondata ''lineNumber'' PNone)\<rparr>;
                 self = (if line self = PStr ''null'' then self\<lparr>line := PNone\<rparr> else self)
             in if line self \<noteq> PNone
                then (case py_int (line self) of
                        Inr n \<Rightarrow> Inr (self\<lparr>line := PInt n\<rparr>)
                      | Inl ValueError \<Rightarrow> Inr self
                      | Inl e \<Rightarrow> Inl e)
                else Inr self))"

subsection \<open>\<^verbatim>\<open>file\<close>\<close>

text \<open>The method \<^verbatim>\<open>file\<close> is named \<open>file'\<close> here.\<close>

text \<open>
  \<open>re_group1 marker s\<close> is \<^verbatim>\<open>m.group(1)\<close> for \<^verbatim>\<open>m = re.search("(^.*)" + marker, s)\<close>, and
  \<open>None\<close> when there is no match: \<^verbatim>\<open>^\<close> anchors at the start of the string, \<^verbatim>\<open>.*\<close> is
  greedy and does not cross a line feed, and the marker must follow.
\<close>

fun re_group1 :: "string \<Rightarrow> string \<Rightarrow> string option" where
  "re_group1 marker [] = (if marker = [] then Some [] else None)"
| "re_group1 marker (c # cs) =
     (case (if c = CHR 0x0A then None else re_group1 marker cs) of
        Some p \<Rightarrow> Some (c # p)
      | None \<Rightarrow> if prefix marker (c # cs) then Some [] else None)"

text \<open>\<^verbatim>\<open>s.split(sep)\<close> for a one-character separator.\<close>

fun split_str :: "char \<Rightarrow> string \<Rightarrow> string list" where
  "split_str sep [] = [[]]"
| "split_str sep (c # cs) =
     (if c = sep then [] # split_str sep cs
      else (case split_str sep cs of
              w # ws \<Rightarrow> (c # w) # ws
            | [] \<Rightarrow> [[c]]))"

definition file' :: "finding \<Rightarrow> error + pyval" where
  "file' self =
     (case json self of
        None \<Rightarrow> Inl TypeError
      | Some j \<Rightarrow>
         (case fmlookup j ''component'' of
            Some v \<Rightarrow>
              (case v of
                 PStr comp0 \<Rightarrow>
                   (let comp1 = (case re_group1 '':BRANCH:'' comp0 of
                                   Some g \<Rightarrow> g | None \<Rightarrow> comp0);
                        comp2 = (case re_group1 '':PULL_REQUEST:'' comp1 of
                                   Some g \<Rightarrow> g | None \<Rightarrow> comp1)
                    in Inr (PStr (last (split_str CHR '':'' comp2))))
               | _ \<Rightarrow> Inl TypeError)
          | None \<Rightarrow>
              (case fmlookup j ''path'' of
                 Some p \<Rightarrow> Inr p
               | None \<Rightarrow> Inr PNone)))"

section \<open>History: changelog, modifiers and the sync policy\<close>

text \<open>
  \<^verbatim>\<open>Finding.changelog\<close> raises \<^verbatim>\<open>NotImplementedError\<close>; the subclasses that override it are
  not part of these sources. The functions below therefore take the method as a parameter
  \<open>changelog\<close>: it either raises or returns the change events of the finding, in order
  (the values of the dictionary the subclasses return). An event has an author.
\<close>

record changelog_entry =
  entry_author :: string
  entry_date :: int

type_synonym changelog_method = "finding \<Rightarrow> error + changelog_entry list"

text \<open>The method as \<^verbatim>\<open>Finding\<close> itself defines it.\<close>

definition changelog_base :: changelog_method where
  "changelog_base self = Inl NotImplementedError"

definition has_changelog :: "changelog_method \<Rightarrow> finding \<Rightarrow> int option \<Rightarrow> error + bool" where
  "has_changelog changelog self added_after =
     (case (case added_after of
              None \<Rightarrow> Inr False
            | Some a \<Rightarrow>
               (case modification_date self of
                  None \<Rightarrow> Inl TypeError
                | Some m \<Rightarrow> Inr (a > m))) of
        Inl e \<Rightarrow> Inl e
      | Inr True \<Rightarrow> Inr False
      | Inr False \<Rightarrow>
         (case changelog self of
            Inl e \<Rightarrow> Inl e
          | Inr cl \<Rightarrow> Inr (length cl > 0)))"

definition modifiers :: "changelog_method \<Rightarrow> finding \<Rightarrow> error + string set" where
  "modifiers changelog self =
     (case changelog self of
        Inl e \<Rightarrow> Inl e
      | Inr cl \<Rightarrow> Inr (set (map entry_author cl)))"

text \<open>
  \<^verbatim>\<open>can_be_synced\<close> first evaluates \<^verbatim>\<open>self.modifiers()\<close> for its debug message, so an
  exception of \<^verbatim>\<open>changelog\<close> surfaces before the allowlist is looked at.
\<close>

definition can_be_synced :: "changelog_method \<Rightarrow> finding \<Rightarrow> string list option \<Rightarrow> error + bool" where
  "can_be_synced changelog self user_list =
     (case modifiers changelog self of
        Inl e \<Rightarrow> Inl e
      | Inr logged \<Rightarrow>
         (case user_list of
            None \<Rightarrow>
              (case has_changelog changelog self None of
                 Inl e \<Rightarrow> Inl e
               | Inr b \<Rightarrow> Inr (\<not> b))
          | Some users \<Rightarrow>
              (case modifiers changelog self of
                 Inl e \<Rightarrow> Inl e
               | Inr ms \<Rightarrow> Inr (\<forall>u \<in> ms. u \<in> set users))))"

section \<open>The matcher\<close>

subsection \<open>\<^verbatim>\<open>strictly_identical_to\<close>\<close>

text \<open>
  \<^verbatim>\<open>self._json["textRange"]["startOffset"]\<close>: subscripting \<^verbatim>\<open>None\<close>, a string with a string
  index, a list or an integer is a \<^verbatim>\<open>TypeError\<close>; a missing key is a \<^verbatim>\<open>KeyError\<close>.
\<close>

definition start_offset :: "finding \<Rightarrow> error + pyval" where
  "start_offset self =
     (case json self of
        None \<Rightarrow> Inl TypeError
      | Some j \<Rightarrow>
         (case fmlookup j ''textRange'' of
            None \<Rightarrow> Inl KeyError
          | Some (PDict rg) \<Rightarrow>
              (case fmlookup rg ''startOffset'' of
                 None \<Rightarrow> Inl KeyError
               | Some v \<Rightarrow> Inr v)
          | Some _ \<Rightarrow> Inl TypeError))"

text \<open>
  \<^verbatim>\<open>x in ("python:S6540")\<close>: the parentheses do not make a tuple, the right operand is the
  string itself, so the test is Python's substring test, which raises \<^verbatim>\<open>TypeError\<close> for a
  left operand that is not a string.
\<close>

definition in_str :: "pyval \<Rightarrow> string \<Rightarrow> error + bool" where
  "in_str x s = (case x of PStr r \<Rightarrow> Inr (sublist r s) | _ \<Rightarrow> Inl TypeError)"

text \<open>The \<^verbatim>\<open>try\<close> block computing \<^verbatim>\<open>prelim_check\<close>; only \<^verbatim>\<open>KeyError\<close> is caught.\<close>

definition prelim_check :: "finding \<Rightarrow> finding \<Rightarrow> error + bool" where
  "prelim_check self another_finding =
     (case start_offset self of
        Inl KeyError \<Rightarrow> Inr True
      | Inl e \<Rightarrow> Inl e
      | Inr col1 \<Rightarrow>
         (case start_offset another_finding of
            Inl KeyError \<Rightarrow> Inr True
          | Inl e \<Rightarrow> Inl e
          | Inr col2 \<Rightarrow> Inr (col1 = col2)))"

definition strictly_identical_to :: "finding \<Rightarrow> finding \<Rightarrow> bool \<Rightarrow> error + bool" where
  "strictly_identical_to self another_finding ignore_component =
     (if key self = key another_finding then Inr True
      else
        (case in_str (rule self) ''python:S6540'' of
           Inl e \<Rightarrow> Inl e
         | Inr special \<Rightarrow>
            (case (if special then prelim_check self another_finding else Inr True) of
               Inl e \<Rightarrow> Inl e
             | Inr prelim \<Rightarrow>
                if rule self \<noteq> rule another_finding then Inr False
                else if hash self \<noteq> hash another_finding then Inr False
                else if message self \<noteq> message another_finding then Inr False
                else
                  (case file' self of
                     Inl e \<Rightarrow> Inl e
                   | Inr f1 \<Rightarrow>
                      (case file' another_finding of
                         Inl e \<Rightarrow> Inl e
                       | Inr f2 \<Rightarrow>
                          Inr (f1 = f2
                               \<and> (component self = component another_finding \<or> ignore_component)
                               \<and> prelim))))))"

subsection \<open>\<^verbatim>\<open>almost_identical_to\<close>\<close>

text \<open>
  The keyword arguments \<^verbatim>\<open>**kwargs\<close> are a dictionary from option names to flags;
  \<open>get kwargs name False\<close> is \<^verbatim>\<open>kwargs.get(name, False)\<close>. \<open>score\<close> is the local variable
  of \<^verbatim>\<open>almost_identical_to\<close> after the last increment.
\<close>

type_synonym kwargs = "(string, bool) fmap"

definition score :: "finding \<Rightarrow> finding \<Rightarrow> bool \<Rightarrow> kwargs \<Rightarrow> error + nat" where
  "score self another_finding ignore_component kwargs =
     (let s = (0::nat);
          s = (if message self = message another_finding \<or> get kwargs ''ignore_message'' False
               then s + 2 else s)
      in case file' self of
           Inl e \<Rightarrow> Inl e
         | Inr f1 \<Rightarrow>
            (case file' another_finding of
               Inl e \<Rightarrow> Inl e
             | Inr f2 \<Rightarrow>
                (let s = (if f1 = f2 then s + 2 else s);
                     s = (if line self = line another_finding \<or> get kwargs ''ignore_line'' False
                          then s + 1 else s);
                     s = (if component self = component another_finding \<or> ignore_component
                          then s + 1 else s);
                     s = (if author self = author another_finding \<or> get kwargs ''ignore_author'' False
                          then s + 1 else s);
                     s = (if type self = type another_finding \<or> get kwargs ''ignore_type'' False
                          then s + 1 else s);
                     s = (if severity self = severity another_finding
                             \<or> get kwargs ''ignore_severity'' False
                          then s + 1 else s)
                 in Inr s)))"

definition almost_identical_to :: "finding \<Rightarrow> finding \<Rightarrow> bool \<Rightarrow> kwargs \<Rightarrow> error + bool" where
  "almost_identical_to self another_finding ignore_component kwargs =
     (if rule self \<noteq> rule another_finding \<or> hash self \<noteq> hash another_finding then Inr False
      else (case score self another_finding ignore_component kwargs of
              Inl e \<Rightarrow> Inl e
            | Inr s \<Rightarrow> Inr (s \<ge> 7)))"

section \<open>The reconciliation driver \<^verbatim>\<open>search_siblings\<close>\<close>

text \<open>
  The call \<^verbatim>\<open>finding.strictly_identical_to(self, ignore_component, **kwargs)\<close>:
  \<^verbatim>\<open>strictly_identical_to\<close> declares no keyword parameter besides \<^verbatim>\<open>ignore_component\<close>, which
  is already given, so the call raises \<^verbatim>\<open>TypeError\<close> as soon as \<^verbatim>\<open>kwargs\<close> is not empty.
\<close>

definition call_strictly_identical_to ::
    "finding \<Rightarrow> finding \<Rightarrow> bool \<Rightarrow> kwargs \<Rightarrow> error + bool" where
  "call_strictly_identical_to finding self ignore_component kwargs =
     (if kwargs \<noteq> fmempty then Inl TypeError
      else strictly_identical_to finding self ignore_component)"

text \<open>
  The method \<^verbatim>\<open>uuid\<close> belongs to the base class, which is not part of these sources; it is the
  parameter \<open>uuid\<close>. The three result lists are \<open>(exact_matches, approx_matches,
  match_but_modified)\<close>. The first loop returns \<open>Some\<close> of them when it leaves the function and
  \<open>None\<close> when it runs to its end.
\<close>

type_synonym matches = "finding list \<times> finding list \<times> finding list"

fun exact_pass ::
    "changelog_method \<Rightarrow> (finding \<Rightarrow> 'u) \<Rightarrow> finding \<Rightarrow> string list option \<Rightarrow> bool \<Rightarrow> kwargs
     \<Rightarrow> finding list \<Rightarrow> matches \<Rightarrow> error + matches option" where
  "exact_pass changelog uuid self allowed_users ignore_component kwargs [] acc = Inr None"
| "exact_pass changelog uuid self allowed_users ignore_component kwargs (finding # rest)
      (exact_matches, approx_matches, match_but_modified) =
     (if uuid self = uuid finding
      then exact_pass changelog uuid self allowed_users ignore_component kwargs rest
             (exact_matches, approx_matches, match_but_modified)
      else
        (case call_strictly_identical_to finding self ignore_component kwargs of
           Inl e \<Rightarrow> Inl e
         | Inr True \<Rightarrow>
            (case can_be_synced changelog finding allowed_users of
               Inl e \<Rightarrow> Inl e
             | Inr True \<Rightarrow>
                 Inr (Some (exact_matches @ [finding], approx_matches, match_but_modified))
             | Inr False \<Rightarrow>
                 Inr (Some (exact_matches, approx_matches, match_but_modified @ [finding])))
         | Inr False \<Rightarrow>
            exact_pass changelog uuid self allowed_users ignore_component kwargs rest
              (exact_matches, approx_matches, match_but_modified)))"

fun approx_pass ::
    "changelog_method \<Rightarrow> finding \<Rightarrow> string list option \<Rightarrow> bool \<Rightarrow> kwargs
     \<Rightarrow> finding list \<Rightarrow> matches \<Rightarrow> error + matches" where
  "approx_pass changelog self allowed_users ignore_component kwargs [] acc = Inr acc"
| "approx_pass changelog self allowed_users ignore_component kwargs (finding # rest)
      (exact_matches, approx_matches, match_but_modified) =
     (case almost_identical_to finding self ignore_component kwargs of
        Inl e \<Rightarrow> Inl e
      | Inr True \<Rightarrow>
         (case can_be_synced changelog finding allowed_users of
            Inl e \<Rightarrow> Inl e
          | Inr True \<Rightarrow>
              approx_pass changelog self allowed_users ignore_component kwargs rest
                (exact_matches, approx_matches @ [finding], match_but_modified)
          | Inr False \<Rightarrow>
              approx_pass changelog self allowed_users ignore_component kwargs rest
                (exact_matches, approx_matches, match_but_modified @ [finding]))
      | Inr False \<Rightarrow>
         approx_pass changelog self allowed_users ignore_component kwargs rest
           (exact_matches, approx_matches, match_but_modified))"

definition search_siblings ::
    "changelog_method \<Rightarrow> (finding \<Rightarrow> 'u) \<Rightarrow> finding \<Rightarrow> finding list \<Rightarrow> string list option
     \<Rightarrow> bool \<Rightarrow> kwargs \<Rightarrow> error + matches" where
  "search_siblings changelog uuid self findings_list allowed_users ignore_component kwargs =
     (case exact_pass changelog uuid self allowed_users ignore_component kwargs findings_list
             ([], [], []) of
        Inl e \<Rightarrow> Inl e
      | Inr (Some found) \<Rightarrow> Inr found
      | Inr None \<Rightarrow>
          approx_pass changelog self allowed_users ignore_component kwargs findings_list
            ([], [], []))"

section \<open>The specification's reading of the derived file path\<close>



section \<open>The specification's scoring table\<close>

text \<open>
  The specification gives the approximate score as a table of weights: message 2, file
  path 2, line 1, component 1, author 1, type 1, severity 1, where a waived dimension earns
  its points even on a mismatch and the file path has no waiver. \<open>p1\<close> and \<open>p2\<close> are the
  derived file paths of the two findings.
\<close>

definition points :: "nat \<Rightarrow> bool \<Rightarrow> nat" where
  "points n b = (if b then n else 0)"

definition weighted_score ::
    "finding \<Rightarrow> finding \<Rightarrow> pyval \<Rightarrow> pyval \<Rightarrow> bool \<Rightarrow> kwargs \<Rightarrow> nat" where
  "weighted_score a b p1 p2 ignore_component kwargs =
       points 2 (message a = message b \<or> get kwargs ''ignore_message'' False)
     + points 2 (p1 = p2)
     + points 1 (line a = line b \<or> get kwargs ''ignore_line'' False)
     + points 1 (component a = component b \<or> ignore_component)
     + points 1 (author a = author b \<or> get kwargs ''ignore_author'' False)
     + points 1 (type a = type b \<or> get kwargs ''ignore_type'' False)
     + points 1 (severity a = severity b \<or> get kwargs ''ignore_severity'' False)"

section \<open>Example findings\<close>

text \<open>
  The scenario of the specification: two findings with the same rule, hash, message and
  derived file path, whose lines differ by one and whose components differ.
\<close>

definition scenario_a :: finding where
  "scenario_a = (init ''AX-1'')\<lparr>
     json := Some (fmap_of_list [(''component'', PStr ''proj:src/app.py'')]),
     rule := PStr ''S100'', hash := PStr ''abc'', message := PStr ''Rename this'',
     line := PInt 10, component := PStr ''proj:src/app.py'', author := PStr ''ann'',
     type := PStr ''CODE_SMELL'', severity := PStr ''MAJOR''\<rparr>"

definition scenario_b :: finding where
  "scenario_b = (init ''BX-7'')\<lparr>
     json := Some (fmap_of_list [(''component'', PStr ''other:src/app.py:BRANCH:dev'')]),
     rule := PStr ''S100'', hash := PStr ''abc'', message := PStr ''Rename this'',
     line := PInt 11, component := PStr ''other:src/app.py'', author := PStr ''ann'',
     type := PStr ''CODE_SMELL'', severity := PStr ''MAJOR''\<rparr>"

text \<open>
  A finding with a text range: rule \<open>r\<close>, start offset \<open>off\<close>, and everything else fixed.
\<close>

definition offset_finding :: "string \<Rightarrow> string \<Rightarrow> int \<Rightarrow> finding" where
  "offset_finding k r off = (init k)\<lparr>
     json := Some (fmap_of_list [(''component'', PStr ''proj:src/app.py''),
              (''textRange'', PDict (fmap_of_list [(''startLine'', PInt 3), (''startOffset'', PInt off)]))]),
     rule := PStr r, hash := PStr ''abc'', message := PStr ''Use a comprehension'',
     component := PStr ''proj:src/app.py''\<rparr>"

section \<open>History and sync policy: properties\<close>

text \<open>
  C6. For a finding with modification date \<open>m\<close> and a cutoff \<open>a\<close> strictly later than \<open>m\<close>,
  \<^verbatim>\<open>has_changelog(added_after=a)\<close> is \<^verbatim>\<open>False\<close> whatever the changelog method does, and also
  with the method of the base class, which raises whenever it is called: the changelog is
  not consulted. With the cutoff equal to \<open>m\<close> there is no short cut: the result is the one
  the changelog gives, and the raising method makes \<^verbatim>\<open>has_changelog\<close> raise.
\<close>

theorem has_changelog_cutoff:
  "modification_date f = Some m \<Longrightarrow> m < a \<Longrightarrow>
     has_changelog changelog f (Some a) = Inr False
   \<and> has_changelog changelog_base f (Some a) = Inr False
   \<and> has_changelog changelog f (Some m) =
       (case changelog f of Inl e \<Rightarrow> Inl e | Inr cl \<Rightarrow> Inr (cl \<noteq> []))
   \<and> has_changelog changelog_base f (Some m) = Inl NotImplementedError"
  by (simp add: has_changelog_def changelog_base_def split: sum.splits)

theorem has_changelog_cutoff_witness:
  "modification_date ((init ''AX1'')\<lparr>modification_date := Some 100\<rparr>) = Some 100
   \<and> (100::int) < 101
   \<and> has_changelog (\<lambda>f. Inr [\<lparr>entry_author = ''bob'', entry_date = 7\<rparr>])
        ((init ''AX1'')\<lparr>modification_date := Some 100\<rparr>) (Some 101) = Inr False
   \<and> has_changelog (\<lambda>f. Inr [\<lparr>entry_author = ''bob'', entry_date = 7\<rparr>])
        ((init ''AX1'')\<lparr>modification_date := Some 100\<rparr>) (Some 100) = Inr True
   \<and> has_changelog changelog_base ((init ''AX1'')\<lparr>modification_date := Some 100\<rparr>) (Some 100)
        = Inl NotImplementedError"
  using has_changelog_cutoff [of "(init ''AX1'')\<lparr>modification_date := Some 100\<rparr>" 100 101
      "\<lambda>f. Inr [\<lparr>entry_author = ''bob'', entry_date = 7\<rparr>]"]
  by (simp add: init_def)

text \<open>
  C3. For a finding whose changelog is \<open>cl\<close>: the modifiers are the authors of \<open>cl\<close>;
  \<^verbatim>\<open>can_be_synced(None)\<close> is true exactly when \<open>cl\<close> has no entry; with an allowlist it is
  true exactly when every modifier is in the allowlist; and with an empty changelog it is
  true for every allowlist.
\<close>

theorem can_be_synced_policy:
  "changelog f = Inr cl \<Longrightarrow>
     modifiers changelog f = Inr (entry_author ` set cl)
   \<and> can_be_synced changelog f None = Inr (length cl = 0)
   \<and> can_be_synced changelog f (Some users) =
        Inr (\<forall>u \<in> entry_author ` set cl. u \<in> set users)
   \<and> can_be_synced (\<lambda>g. Inr []) f (Some users) = Inr True"
  by (simp add: can_be_synced_def modifiers_def has_changelog_def)

theorem can_be_synced_policy_witness:
  "(\<lambda>f. Inr [\<lparr>entry_author = ''bot'', entry_date = 1\<rparr>, \<lparr>entry_author = ''eve'', entry_date = 2\<rparr>])
      (init ''AX1'')
      = Inr [\<lparr>entry_author = ''bot'', entry_date = 1\<rparr>, \<lparr>entry_author = ''eve'', entry_date = 2\<rparr>]
   \<and> can_be_synced
        (\<lambda>f. Inr [\<lparr>entry_author = ''bot'', entry_date = 1\<rparr>, \<lparr>entry_author = ''eve'', entry_date = 2\<rparr>])
        (init ''AX1'') None = Inr False
   \<and> can_be_synced
        (\<lambda>f. Inr [\<lparr>entry_author = ''bot'', entry_date = 1\<rparr>, \<lparr>entry_author = ''eve'', entry_date = 2\<rparr>])
        (init ''AX1'') (Some [''bot'']) = Inr False
   \<and> can_be_synced
        (\<lambda>f. Inr [\<lparr>entry_author = ''bot'', entry_date = 1\<rparr>, \<lparr>entry_author = ''eve'', entry_date = 2\<rparr>])
        (init ''AX1'') (Some [''eve'', ''bot'']) = Inr True
   \<and> can_be_synced (\<lambda>g. Inr []) (init ''AX1'') (Some []) = Inr True"
  using
    can_be_synced_policy [of
      "\<lambda>f. Inr [\<lparr>entry_author = ''bot'', entry_date = 1\<rparr>, \<lparr>entry_author = ''eve'', entry_date = 2\<rparr>]"
      "init ''AX1''"
      "[\<lparr>entry_author = ''bot'', entry_date = 1\<rparr>, \<lparr>entry_author = ''eve'', entry_date = 2\<rparr>]"
      "[''bot'']"]
    can_be_synced_policy [of
      "\<lambda>f. Inr [\<lparr>entry_author = ''bot'', entry_date = 1\<rparr>, \<lparr>entry_author = ''eve'', entry_date = 2\<rparr>]"
      "init ''AX1''"
      "[\<lparr>entry_author = ''bot'', entry_date = 1\<rparr>, \<lparr>entry_author = ''eve'', entry_date = 2\<rparr>]"
      "[''eve'', ''bot'']"]
    can_be_synced_policy [of
      "\<lambda>f. Inr [\<lparr>entry_author = ''bot'', entry_date = 1\<rparr>, \<lparr>entry_author = ''eve'', entry_date = 2\<rparr>]"
      "init ''AX1''"
      "[\<lparr>entry_author = ''bot'', entry_date = 1\<rparr>, \<lparr>entry_author = ''eve'', entry_date = 2\<rparr>]"
      "[]"]
  by simp

section \<open>The approximate matcher: properties\<close>

lemma file_scenario_a: "file' scenario_a = Inr (PStr ''src/app.py'')"
  by (simp add: scenario_a_def init_def file'_def)

lemma file_scenario_b: "file' scenario_b = Inr (PStr ''src/app.py'')"
  by (simp add: scenario_b_def init_def file'_def)

lemma score_closed_form:
  "file' c = Inr p1 \<Longrightarrow> file' f = Inr p2 \<Longrightarrow>
   score c f ic kw = Inr (weighted_score c f p1 p2 ic kw)"
  by (simp add: score_def weighted_score_def points_def Let_def)

lemma score_files:
  "score c f ic kw = Inr s \<Longrightarrow> \<exists>p1 p2. file' c = Inr p1 \<and> file' f = Inr p2"
  by (auto simp: score_def Let_def split: sum.splits)

lemma points_mono: "(b \<Longrightarrow> b') \<Longrightarrow> points n b \<le> points n b'"
  by (simp add: points_def)

lemma weighted_score_le_9: "weighted_score c f p1 p2 ic kw \<le> 9"
  by (simp add: weighted_score_def points_def)

lemma weighted_score_mono:
  assumes kw: "\<And>k. get kw k False \<Longrightarrow> get kw' k False"
    and ic: "ic \<Longrightarrow> ic'"
  shows "weighted_score c f p1 p2 ic kw \<le> weighted_score c f p1 p2 ic' kw'"
  unfolding weighted_score_def
  by (intro add_mono points_mono order_refl) (use kw ic in blast)+

text \<open>
  C2. \<^verbatim>\<open>almost_identical_to\<close> returns \<^verbatim>\<open>False\<close> whenever the rules or the hashes of the two
  findings differ, whatever the other attributes, the waivers and the raw records are.
  Otherwise, with \<open>p1\<close> and \<open>p2\<close> the derived file paths, the accumulated score is the
  weighted sum of the specification's table (message 2, file path 2, line, component,
  author, type and severity 1 each, a waived dimension scoring on a mismatch too), it is at
  most 9, and the result is \<^verbatim>\<open>True\<close> exactly when the score is at least 7.
\<close>

theorem almost_identical_to_score:
  "(rule c \<noteq> rule f \<or> hash c \<noteq> hash f \<longrightarrow> almost_identical_to c f ic kw = Inr False)
   \<and> (rule c = rule f \<and> hash c = hash f \<and> file' c = Inr p1 \<and> file' f = Inr p2 \<longrightarrow>
        score c f ic kw = Inr (weighted_score c f p1 p2 ic kw)
      \<and> weighted_score c f p1 p2 ic kw \<le> 9
      \<and> almost_identical_to c f ic kw = Inr (7 \<le> weighted_score c f p1 p2 ic kw))"
  by (simp add: almost_identical_to_def score_closed_form weighted_score_le_9)

theorem almost_identical_to_score_witness:
  "almost_identical_to (scenario_b\<lparr>hash := PStr ''abd''\<rparr>) scenario_a True
      (fmap_of_list [(''ignore_line'', True), (''ignore_message'', True)]) = Inr False
   \<and> score scenario_b scenario_a False fmempty = Inr 7
   \<and> almost_identical_to scenario_b scenario_a False fmempty = Inr True
   \<and> score (scenario_b\<lparr>author := PStr ''joe''\<rparr>) scenario_a False fmempty = Inr 6
   \<and> almost_identical_to (scenario_b\<lparr>author := PStr ''joe''\<rparr>) scenario_a False fmempty
       = Inr False"
proof -
  have fb: "file' (scenario_b\<lparr>author := PStr ''joe''\<rparr>) = Inr (PStr ''src/app.py'')"
    by (simp add: scenario_b_def init_def file'_def)
  have g1: "hash (scenario_b\<lparr>hash := PStr ''abd''\<rparr>) \<noteq> hash scenario_a"
    by (simp add: scenario_a_def)
  have g2: "rule scenario_b = rule scenario_a" "hash scenario_b = hash scenario_a"
    by (simp_all add: scenario_a_def scenario_b_def)
  have g3: "rule (scenario_b\<lparr>author := PStr ''joe''\<rparr>) = rule scenario_a"
    "hash (scenario_b\<lparr>author := PStr ''joe''\<rparr>) = hash scenario_a"
    by (simp_all add: scenario_a_def scenario_b_def)
  have w1: "weighted_score scenario_b scenario_a (PStr ''src/app.py'') (PStr ''src/app.py'')
      False fmempty = 7"
    by (simp add: weighted_score_def points_def get_def scenario_a_def scenario_b_def init_def)
  have w2: "weighted_score (scenario_b\<lparr>author := PStr ''joe''\<rparr>) scenario_a
      (PStr ''src/app.py'') (PStr ''src/app.py'') False fmempty = 6"
    by (simp add: weighted_score_def points_def get_def scenario_a_def scenario_b_def init_def)
  show ?thesis
    using almost_identical_to_score [where c = "scenario_b\<lparr>hash := PStr ''abd''\<rparr>"
        and f = scenario_a and ic = True
        and kw = "fmap_of_list [(''ignore_line'', True), (''ignore_message'', True)]"]
      almost_identical_to_score [where c = scenario_b and f = scenario_a and ic = False
        and kw = fmempty and ?p1.0 = "PStr ''src/app.py''" and ?p2.0 = "PStr ''src/app.py''"]
      almost_identical_to_score [where c = "scenario_b\<lparr>author := PStr ''joe''\<rparr>"
        and f = scenario_a and ic = False and kw = fmempty
        and ?p1.0 = "PStr ''src/app.py''" and ?p2.0 = "PStr ''src/app.py''"]
      g1 g2 g3 fb file_scenario_a file_scenario_b w1 w2
    by simp
qed

lemma score_mono:
  assumes sc: "score c f ic kw = Inr s"
    and kw: "\<And>k. get kw k False \<Longrightarrow> get kw' k False"
    and ic: "ic \<Longrightarrow> ic'"
  shows "\<exists>s'. score c f ic' kw' = Inr s' \<and> s \<le> s'"
proof -
  from score_files [OF sc] obtain p1 p2 where p: "file' c = Inr p1" "file' f = Inr p2"
    by blast
  have "s = weighted_score c f p1 p2 ic kw"
    using sc score_closed_form [OF p, of ic kw] by simp
  then have "s \<le> weighted_score c f p1 p2 ic' kw'"
    using weighted_score_mono [of kw kw' ic ic' c f p1 p2] kw ic by blast
  then show ?thesis
    using score_closed_form [OF p, of ic' kw'] by simp
qed

lemma get_fmupd_True: "get kw k' False \<Longrightarrow> get (fmupd k True kw) k' False"
  by (simp add: get_def split: option.splits)

text \<open>
  C7. The score is monotonic in the waivers. If the score of a pair is \<open>s\<close>, then setting
  one more keyword waiver \<open>k\<close>, or setting \<^verbatim>\<open>ignore_component\<close>, gives a score of at least
  \<open>s\<close>; and a pair that is an approximate match under some waivers is one under every
  configuration that waives at least the same dimensions.
\<close>

theorem score_monotonic:
  assumes "score c f ic kw = Inr s"
  shows "(\<exists>s'. score c f ic (fmupd k True kw) = Inr s' \<and> s \<le> s')
       \<and> (\<exists>s'. score c f True kw = Inr s' \<and> s \<le> s')
       \<and> ((\<forall>k. get kw k False \<longrightarrow> get kw' k False) \<and> (ic \<longrightarrow> ic')
            \<and> almost_identical_to c f ic kw = Inr True
          \<longrightarrow> almost_identical_to c f ic' kw' = Inr True)"
proof (intro conjI impI)
  show "\<exists>s'. score c f ic (fmupd k True kw) = Inr s' \<and> s \<le> s'"
    by (rule score_mono [OF assms]) (simp_all add: get_fmupd_True)
  show "\<exists>s'. score c f True kw = Inr s' \<and> s \<le> s'"
    by (rule score_mono [OF assms]) simp_all
next
  assume h: "(\<forall>k. get kw k False \<longrightarrow> get kw' k False) \<and> (ic \<longrightarrow> ic')
      \<and> almost_identical_to c f ic kw = Inr True"
  then have gate: "rule c = rule f" "hash c = hash f" and s7: "7 \<le> s"
    using assms by (auto simp: almost_identical_to_def split: if_splits)
  from h have "\<exists>s'. score c f ic' kw' = Inr s' \<and> s \<le> s'"
    by (intro score_mono [OF assms]) blast+
  then show "almost_identical_to c f ic' kw' = Inr True"
    using gate s7 by (auto simp: almost_identical_to_def)
qed

theorem score_monotonic_witness:
  "score scenario_b scenario_a False fmempty = Inr 7
   \<and> (\<exists>s'. score scenario_b scenario_a False (fmupd ''ignore_line'' True fmempty) = Inr s'
           \<and> 7 \<le> s')
   \<and> (\<exists>s'. score scenario_b scenario_a True fmempty = Inr s' \<and> 7 \<le> s')
   \<and> almost_identical_to scenario_b scenario_a False fmempty = Inr True
   \<and> almost_identical_to scenario_b scenario_a True (fmupd ''ignore_line'' True fmempty)
       = Inr True"
proof -
  have sc: "score scenario_b scenario_a False fmempty = Inr 7"
    using score_closed_form [OF file_scenario_b file_scenario_a, of False fmempty]
    by (simp add: weighted_score_def points_def get_def scenario_a_def scenario_b_def init_def)
  have sub: "\<forall>k. get fmempty k False \<longrightarrow> get (fmupd ''ignore_line'' True fmempty) k False"
    by (simp add: get_def)
  have ai: "almost_identical_to scenario_b scenario_a False fmempty = Inr True"
    using sc by (simp add: almost_identical_to_def scenario_a_def scenario_b_def)
  show ?thesis
    using score_monotonic [OF sc, of "''ignore_line''" "fmupd ''ignore_line'' True fmempty" True]
      sc sub ai
    by simp
qed

section \<open>The strict matcher and the driver: properties\<close>

text \<open>
  C5. The start offsets are compared for rules other than \<^verbatim>\<open>python:S6540\<close>. Two findings
  with different keys and the rule \<^verbatim>\<open>S6540\<close>, equal in hash, message, file path and
  component, are not strictly identical when their start offsets are 4 and 8, and are
  strictly identical when both offsets are 4: the membership test of the source is a
  substring test on the text \<^verbatim>\<open>python:S6540\<close>. For the rule \<^verbatim>\<open>java:S100\<close>, which is not a
  substring, the offsets are ignored; for \<^verbatim>\<open>python:S6540\<close> itself they must agree.
\<close>

theorem strictly_identical_to_offset_other_rule:
  "strictly_identical_to (offset_finding ''K1'' ''S6540'' 4) (offset_finding ''K2'' ''S6540'' 8) False
     = Inr False
   \<and> strictly_identical_to (offset_finding ''K1'' ''S6540'' 4) (offset_finding ''K2'' ''S6540'' 4) False
     = Inr True
   \<and> strictly_identical_to (offset_finding ''K1'' ''java:S100'' 4) (offset_finding ''K2'' ''java:S100'' 8) False
     = Inr True
   \<and> strictly_identical_to (offset_finding ''K1'' ''python:S6540'' 4)
        (offset_finding ''K2'' ''python:S6540'' 8) False = Inr False"
  by (simp add: strictly_identical_to_def offset_finding_def init_def in_str_def prelim_check_def
      start_offset_def file'_def sublist_code)

text \<open>
  C4. \<^verbatim>\<open>search_siblings\<close> raises \<^verbatim>\<open>TypeError\<close> when a waiver keyword is given and the
  population has a candidate with another uuid: the keywords are passed on to
  \<^verbatim>\<open>strictly_identical_to\<close>, which accepts none. With the population of one candidate
  \<open>scenario_b\<close> and the waiver \<^verbatim>\<open>ignore_line=True\<close> the call raises; without the waiver the
  same call returns the three lists.
\<close>

theorem search_siblings_waiver_raises:
  "search_siblings (\<lambda>f. Inr []) key scenario_a [scenario_b] None False
      (fmupd ''ignore_line'' True fmempty) = Inl TypeError
   \<and> search_siblings (\<lambda>f. Inr []) key scenario_a [scenario_b] None False fmempty
      = Inr ([], [scenario_b], [])"
  apply (simp add: search_siblings_def call_strictly_identical_to_def)
  apply (simp add: scenario_a_def scenario_b_def init_def  strictly_identical_to_def in_str_def
     almost_identical_to_def score_def file'_def get_def can_be_synced_def modifiers_def has_changelog_def sublist_code)
  done

lemma exact_pass_skip:
  "\<forall>p \<in> set pre. uuid f = uuid p \<or> call_strictly_identical_to p f ic kw = Inr False \<Longrightarrow>
   exact_pass cl uuid f au ic kw (pre @ rest) (e0, a0, m0)
     = exact_pass cl uuid f au ic kw rest (e0, a0, m0)"
  by (induction pre) auto

lemma exact_pass_hit:
  "uuid f \<noteq> uuid c \<Longrightarrow> call_strictly_identical_to c f ic kw = Inr True \<Longrightarrow>
   exact_pass cl uuid f au ic kw (c # post) (e0, a0, m0)
     = (case can_be_synced cl c au of
          Inl e \<Rightarrow> Inl e
        | Inr b \<Rightarrow> Inr (Some (if b then (e0 @ [c], a0, m0) else (e0, a0, m0 @ [c]))))"
  by (simp split: sum.splits bool.splits)

lemma exact_pass_shape:
  "exact_pass cl uuid f au ic kw pop (e0, a0, m0) = Inr (Some (ex, ap, mm)) \<Longrightarrow>
   ap = a0 \<and> (\<exists>c \<in> set pop. (ex = e0 @ [c] \<and> mm = m0) \<or> (ex = e0 \<and> mm = m0 @ [c]))"
  by (induction pop) (auto split: if_splits sum.splits bool.splits)

lemma approx_pass_exact:
  "approx_pass cl f au ic kw pop (e0, a0, m0) = Inr (ex, ap, mm) \<Longrightarrow> ex = e0"
  by (induction pop arbitrary: a0 m0) (auto split: sum.splits bool.splits)

text \<open>
  What the driver does when no waiver keyword is given. When the population is
  \<open>pre @ c # post\<close>, every candidate of \<open>pre\<close> is the finding itself (same uuid) or not
  strictly identical to it, and \<open>c\<close> is another finding that is strictly identical, then
  \<^verbatim>\<open>search_siblings\<close> returns \<open>c\<close> alone, in \<^verbatim>\<open>exact_matches\<close> when \<open>c\<close> can be synced and in
  \<^verbatim>\<open>match_but_modified\<close> otherwise, whatever \<open>post\<close> holds: the scan stops at \<open>c\<close> and the
  approximate pass does not run.
\<close>

lemma first_exact_without_waivers:
  assumes pop: "findings_list = pre @ c # post"
    and pre: "\<forall>p \<in> set pre. uuid f = uuid p \<or> strictly_identical_to p f ic = Inr False"
    and c: "uuid f \<noteq> uuid c" "strictly_identical_to c f ic = Inr True"
  shows "search_siblings cl uuid f findings_list au ic fmempty
           = (case can_be_synced cl c au of
                Inl e \<Rightarrow> Inl e
              | Inr b \<Rightarrow> Inr (if b then ([c], [], []) else ([], [], [c])))"
proof -
  have pre': "\<forall>p \<in> set pre.
      uuid f = uuid p \<or> call_strictly_identical_to p f ic fmempty = Inr False"
    using pre by (simp add: call_strictly_identical_to_def)
  have c': "call_strictly_identical_to c f ic fmempty = Inr True"
    using c(2) by (simp add: call_strictly_identical_to_def)
  have "exact_pass cl uuid f au ic fmempty findings_list ([], [], [])
      = (case can_be_synced cl c au of
          Inl e \<Rightarrow> Inl e
        | Inr b \<Rightarrow> Inr (Some (if b then ([] @ [c], [], []) else ([], [], [] @ [c]))))"
    unfolding pop using exact_pass_skip [OF pre'] exact_pass_hit [OF c(1) c'] by simp
  then show ?thesis
    by (simp add: search_siblings_def split: sum.splits)
qed

text \<open>
  Whatever the options are, a returned triple has at most one exact match and never both
  an exact and an approximate match.
\<close>

lemma exact_and_approx_exclusive:
  assumes r: "search_siblings cl uuid f population au ic kw = Inr (ex, ap, mm)"
  shows "length ex \<le> 1 \<and> (ex = [] \<or> ap = [])"
proof (cases "exact_pass cl uuid f au ic kw population ([], [], [])")
  case (Inl e)
  with r show ?thesis by (simp add: search_siblings_def)
next
  case (Inr found)
  show ?thesis
  proof (cases found)
    case None
    with Inr r have "approx_pass cl f au ic kw population ([], [], []) = Inr (ex, ap, mm)"
      by (simp add: search_siblings_def)
    from approx_pass_exact [OF this] show ?thesis by simp
  next
    case (Some t)
    with Inr r
    have "exact_pass cl uuid f au ic kw population ([], [], []) = Inr (Some (ex, ap, mm))"
      by (simp add: search_siblings_def)
    from exact_pass_shape [OF this] show ?thesis by auto
  qed
qed

text \<open>
  C1. With a waiver keyword the driver does not classify the first strictly identical
  candidate: it raises. \<open>scenario_b\<close> is another finding and is strictly identical to
  \<open>scenario_a\<close> when the component is ignored; with no waiver \<^verbatim>\<open>search_siblings\<close> returns it
  alone in \<^verbatim>\<open>exact_matches\<close>, and with the waiver \<^verbatim>\<open>ignore_line=True\<close> the same call raises
  \<^verbatim>\<open>TypeError\<close>, because the keywords are passed on to \<^verbatim>\<open>strictly_identical_to\<close>, which
  accepts none.
\<close>

theorem search_siblings_exact_match_raises:
  "strictly_identical_to scenario_b scenario_a True = Inr True
   \<and> search_siblings (\<lambda>f. Inr []) key scenario_a [scenario_b] None True fmempty
      = Inr ([scenario_b], [], [])
   \<and> search_siblings (\<lambda>f. Inr []) key scenario_a [scenario_b] None True
      (fmupd ''ignore_line'' True fmempty) = Inl TypeError"
proof -
  have k: "key scenario_a \<noteq> key scenario_b"
    by (simp add: scenario_a_def scenario_b_def init_def)
  have s: "strictly_identical_to scenario_b scenario_a True = Inr True"
    by (simp add: strictly_identical_to_def in_str_def sublist_code file'_def
        scenario_a_def scenario_b_def init_def)
  have sync: "can_be_synced (\<lambda>f. Inr []) scenario_b None = Inr True"
    by (simp add: can_be_synced_def modifiers_def has_changelog_def)
  have r1: "search_siblings (\<lambda>f. Inr []) key scenario_a [scenario_b] None True fmempty
      = Inr ([scenario_b], [], [])"
    using k s sync by (simp add: search_siblings_def call_strictly_identical_to_def)
  have r2: "search_siblings (\<lambda>f. Inr []) key scenario_a [scenario_b] None True
      (fmupd ''ignore_line'' True fmempty) = Inl TypeError"
    using k by (simp add: search_siblings_def call_strictly_identical_to_def)
  show ?thesis using s r1 r2 by simp
qed

lemma score_self: "file' f = Inr p \<Longrightarrow> score f f ic kw = Inr 9"
  by (simp add: score_def Let_def)

lemma almost_identical_total:
  "file' c = Inr p \<Longrightarrow> file' f = Inr q \<Longrightarrow> \<exists>b. almost_identical_to c f ic kw = Inr b"
  by (auto simp: almost_identical_to_def score_def Let_def)

lemma can_be_synced_total:
  "cl c = Inr l \<Longrightarrow> \<exists>b. can_be_synced cl c au = Inr b"
  by (cases au) (simp_all add: can_be_synced_def modifiers_def has_changelog_def)

lemma approx_pass_total:
  assumes "\<forall>c \<in> set pop. (\<exists>p. file' c = Inr p) \<and> (\<exists>l. cl c = Inr l)"
    and "file' f = Inr q"
  shows "\<exists>ex ap mm. approx_pass cl f au ic kw pop (e0, a0, m0) = Inr (ex, ap, mm)"
  using assms(1)
proof (induction pop arbitrary: a0 m0)
  case Nil
  then show ?case by simp
next
  case (Cons c pop)
  from Cons.prems obtain p l where p: "file' c = Inr p" and l: "cl c = Inr l"
    by auto
  from almost_identical_total [OF p assms(2)] obtain b
    where b: "almost_identical_to c f ic kw = Inr b" by blast
  from can_be_synced_total [of cl c l au] l obtain b' where b': "can_be_synced cl c au = Inr b'" by blast
  from Cons.prems have rest: "\<forall>c \<in> set pop. (\<exists>p. file' c = Inr p) \<and> (\<exists>l. cl c = Inr l)"
    by simp
  show ?case
    using b b' Cons.IH [OF rest] by (cases b; cases b') simp_all
qed

lemma approx_pass_grows:
  "approx_pass cl f au ic kw pop (e0, a0, m0) = Inr (ex, ap, mm) \<Longrightarrow>
   set a0 \<subseteq> set ap \<and> set m0 \<subseteq> set mm"
proof (induction pop arbitrary: a0 m0)
  case Nil
  then show ?case by simp
next
  case (Cons c pop)
  then show ?case
    by (fastforce split: sum.splits bool.splits)
qed

lemma approx_pass_member:
  assumes "approx_pass cl f au ic kw pop (e0, a0, m0) = Inr (ex, ap, mm)"
    and "c \<in> set pop"
    and "almost_identical_to c f ic kw = Inr True"
    and "can_be_synced cl c au = Inr b"
  shows "c \<in> set (if b then ap else mm)"
  using assms(1,2)
proof (induction pop arbitrary: a0 m0)
  case Nil
  then show ?case by simp
next
  case (Cons d pop)
  show ?case
  proof (cases "d = c")
    case True
    show ?thesis
    proof (cases b)
      case True
      with \<open>d = c\<close> Cons.prems(1) assms(3,4)
      have "approx_pass cl f au ic kw pop (e0, a0 @ [c], m0) = Inr (ex, ap, mm)"
        by simp
      from approx_pass_grows [OF this] True show ?thesis by auto
    next
      case False
      with \<open>d = c\<close> Cons.prems(1) assms(3,4)
      have "approx_pass cl f au ic kw pop (e0, a0, m0 @ [c]) = Inr (ex, ap, mm)"
        by simp
      from approx_pass_grows [OF this] False show ?thesis by auto
    qed
  next
    case False
    with Cons.prems(2) have "c \<in> set pop" by simp
    with Cons.prems(1) Cons.IH show ?thesis
      by (auto split: sum.splits bool.splits)
  qed
qed

lemma exact_pass_none:
  "\<forall>c \<in> set pop. uuid f \<noteq> uuid c \<longrightarrow> call_strictly_identical_to c f ic kw = Inr False \<Longrightarrow>
   exact_pass cl uuid f au ic kw pop (e0, a0, m0) = Inr None"
  by (induction pop) auto

text \<open>
  What the driver does for a finding that is in its own population, when no waiver keyword
  is given. If no candidate with another uuid is strictly identical to the finding \<open>f\<close>,
  and the file path and the changelog of every candidate can be computed, then
  \<^verbatim>\<open>search_siblings\<close> returns, \<open>f\<close> scores 9 against itself, there is no exact match, and
  \<open>f\<close> is in \<^verbatim>\<open>approx_matches\<close> when it can be synced and in \<^verbatim>\<open>match_but_modified\<close>
  otherwise.
\<close>

lemma self_candidate_without_waivers:
  assumes mem: "f \<in> set population"
    and noexact: "\<forall>c \<in> set population.
        uuid f \<noteq> uuid c \<longrightarrow> strictly_identical_to c f ic = Inr False"
    and wf: "\<forall>c \<in> set population. (\<exists>p. file' c = Inr p) \<and> (\<exists>l. cl c = Inr l)"
  shows "score f f ic fmempty = Inr 9
       \<and> almost_identical_to f f ic fmempty = Inr True
       \<and> (\<exists>ex ap mm b.
            search_siblings cl uuid f population au ic fmempty = Inr (ex, ap, mm)
          \<and> can_be_synced cl f au = Inr b
          \<and> ex = [] \<and> f \<in> set (if b then ap else mm))"
proof -
  from mem wf obtain p l where p: "file' f = Inr p" and l: "cl f = Inr l"
    by blast
  have noexact': "\<forall>c \<in> set population.
      uuid f \<noteq> uuid c \<longrightarrow> call_strictly_identical_to c f ic fmempty = Inr False"
    using noexact by (simp add: call_strictly_identical_to_def)
  have s9: "score f f ic fmempty = Inr 9" by (rule score_self [OF p])
  then have ai: "almost_identical_to f f ic fmempty = Inr True"
    by (simp add: almost_identical_to_def)
  from can_be_synced_total [of cl f l au] l obtain b
    where b: "can_be_synced cl f au = Inr b" by blast
  from approx_pass_total [OF wf p] obtain ex ap mm
    where ap: "approx_pass cl f au ic fmempty population ([], [], []) = Inr (ex, ap, mm)"
    by blast
  have ss: "search_siblings cl uuid f population au ic fmempty = Inr (ex, ap, mm)"
    using exact_pass_none [OF noexact'] ap by (simp add: search_siblings_def)
  have "ex = []" using approx_pass_exact [OF ap] .
  moreover have "f \<in> set (if b then ap else mm)"
    by (rule approx_pass_member [OF ap mem ai b])
  ultimately show ?thesis
    using s9 ai ss b by blast
qed

text \<open>
  C10. With a waiver keyword and a candidate with another uuid, the finding that is in its
  own population is not returned: the driver raises before the approximate pass. The
  population holds a candidate with another key and another hash, which is not strictly
  identical to \<open>scenario_a\<close>, and \<open>scenario_a\<close> itself, which scores 9 against itself. With
  no waiver \<^verbatim>\<open>search_siblings\<close> returns \<open>scenario_a\<close> in \<^verbatim>\<open>approx_matches\<close>; with the waiver
  \<^verbatim>\<open>ignore_line=True\<close> the same call raises \<^verbatim>\<open>TypeError\<close> in the exact pass.
\<close>

theorem search_siblings_self_candidate_raises:
  "strictly_identical_to (scenario_b\<lparr>key := ''CX-3'', hash := PStr ''zzz''\<rparr>) scenario_a False
     = Inr False
   \<and> score scenario_a scenario_a False (fmupd ''ignore_line'' True fmempty) = Inr 9
   \<and> search_siblings (\<lambda>f. Inr []) key scenario_a
       [scenario_b\<lparr>key := ''CX-3'', hash := PStr ''zzz''\<rparr>, scenario_a] None False fmempty
     = Inr ([], [scenario_a], [])
   \<and> search_siblings (\<lambda>f. Inr []) key scenario_a
       [scenario_b\<lparr>key := ''CX-3'', hash := PStr ''zzz''\<rparr>, scenario_a] None False
       (fmupd ''ignore_line'' True fmempty) = Inl TypeError"
proof -
  let ?other = "scenario_b\<lparr>key := ''CX-3'', hash := PStr ''zzz''\<rparr>"
  have so: "strictly_identical_to ?other scenario_a False = Inr False"
    by (simp add: strictly_identical_to_def in_str_def sublist_code
        scenario_a_def scenario_b_def init_def)
  have s9: "score scenario_a scenario_a False (fmupd ''ignore_line'' True fmempty) = Inr 9"
    by (rule score_self [OF file_scenario_a])
  have ko: "key scenario_a \<noteq> key ?other"
    by (simp add: scenario_a_def init_def)
  have ao: "almost_identical_to ?other scenario_a False fmempty = Inr False"
    by (simp add: almost_identical_to_def scenario_a_def scenario_b_def init_def)
  have aa: "almost_identical_to scenario_a scenario_a False fmempty = Inr True"
    using score_self [OF file_scenario_a, of False fmempty]
    by (simp add: almost_identical_to_def)
  have sync: "can_be_synced (\<lambda>f. Inr []) scenario_a None = Inr True"
    by (simp add: can_be_synced_def modifiers_def has_changelog_def)
  have r1: "search_siblings (\<lambda>f. Inr []) key scenario_a [?other, scenario_a] None False fmempty
     = Inr ([], [scenario_a], [])"
    using ko so ao aa sync by (simp add: search_siblings_def call_strictly_identical_to_def)
  have r2: "search_siblings (\<lambda>f. Inr []) key scenario_a [?other, scenario_a] None False
       (fmupd ''ignore_line'' True fmempty) = Inl TypeError"
    using ko by (simp add: search_siblings_def call_strictly_identical_to_def)
  show ?thesis using so s9 r1 r2 by simp
qed

section \<open>Construction of a finding: properties\<close>

lemma py_int_str_12a: "py_int_str ''12a'' = None"
  by (simp add: py_int_str_def strip_def is_space_def parse_unsigned_def is_digit_def digit_val_def)

text \<open>
  C8, as stated, fails: when \<^verbatim>\<open>int()\<close> rejects the string, the assignment inside the
  \<^verbatim>\<open>try\<close> block does not happen and the line field keeps the raw string. For the raw record
  with status \<^verbatim>\<open>OPEN\<close> and line \<^verbatim>\<open>"12a"\<close> the line of the finding is the string \<^verbatim>\<open>"12a"\<close>,
  not \<^verbatim>\<open>None\<close>.
\<close>

theorem load_common_line_kept_counterexample:
  "map_sum id line (load_common (init ''AX-1'')
      (fmap_of_list [(''status'', PStr ''OPEN''), (''line'', PStr ''12a'')])) = Inr (PStr ''12a'')
   \<and> map_sum id line (load_common (init ''AX-1'')
      (fmap_of_list [(''status'', PStr ''OPEN''), (''line'', PStr ''12a'')])) \<noteq> Inr PNone"
  by (simp add: load_common_def get_def py_int_str_12a Let_def)

lemma parse_digits_all_digits:
  "\<forall>c \<in> set s. is_digit c \<Longrightarrow>
   parse_digits acc s = Some (foldl (\<lambda>a c. 10 * a + digit_val c) acc s)"
  by (induction acc s rule: parse_digits.induct) simp_all

lemma digit_not_space: "is_digit c \<Longrightarrow> \<not> is_space c"
  by (auto simp: is_digit_def is_space_def)

lemma digit_not_sign: "is_digit c \<Longrightarrow> c \<noteq> CHR ''-'' \<and> c \<noteq> CHR ''+''"
  by (auto simp: is_digit_def)

lemma strip_digits:
  assumes "\<forall>c \<in> set s. is_digit c"
  shows "strip s = s"
proof -
  have "\<forall>c \<in> set s. \<not> is_space c" using assms digit_not_space by blast
  then have "s = [] \<or> \<not> is_space (hd s)" "s = [] \<or> \<not> is_space (last s)"
    by (cases s, simp, simp)+
  then have "dropWhile is_space s = s" "dropWhile is_space (rev s) = rev s"
    by (simp_all add: dropWhile_eq_self_iff hd_rev)
  then show ?thesis by (simp add: strip_def)
qed

lemma py_int_str_digits:
  assumes "s \<noteq> []" "\<forall>c \<in> set s. is_digit c"
  shows "py_int_str s = Some (decimal s)"
proof -
  from assms(1) obtain c cs where s: "s = c # cs" by (cases s) auto
  with assms(2) have c: "is_digit c" and cs: "\<forall>c \<in> set cs. is_digit c" by auto
  show ?thesis
    using strip_digits [OF assms(2)] c digit_not_sign [OF c] parse_digits_all_digits [OF cs]
    by (simp add: py_int_str_def s parse_unsigned_def decimal_def)
qed

lemma py_int_str_null: "py_int_str ''null'' = None"
  by (simp add: py_int_str_def strip_def is_space_def parse_unsigned_def is_digit_def)

text \<open>
  C8, amended. For every raw record with a status, \<^verbatim>\<open>_load_common\<close> returns a finding whose
  line is: \<^verbatim>\<open>None\<close> when the raw line is the string \<^verbatim>\<open>"null"\<close>; the integer \<open>n\<close> when the
  raw line is a string that \<^verbatim>\<open>int()\<close> reads as \<open>n\<close>; and the raw string itself, with no
  exception, when \<^verbatim>\<open>int()\<close> rejects it. A non-empty string of decimal digits is read as its
  decimal value.
\<close>

theorem load_common_line:
  assumes st: "fmlookup jsondata ''status'' = Some st"
  shows "(get jsondata ''line'' (get jsondata ''lineNumber'' PNone) = PStr ''null''
            \<longrightarrow> map_sum id line (load_common self jsondata) = Inr PNone)
       \<and> (\<forall>s n. get jsondata ''line'' (get jsondata ''lineNumber'' PNone) = PStr s
                 \<and> py_int_str s = Some n
            \<longrightarrow> map_sum id line (load_common self jsondata) = Inr (PInt n))
       \<and> (\<forall>s. get jsondata ''line'' (get jsondata ''lineNumber'' PNone) = PStr s
               \<and> s \<noteq> ''null'' \<and> py_int_str s = None
            \<longrightarrow> map_sum id line (load_common self jsondata) = Inr (PStr s))
       \<and> (\<forall>s. s \<noteq> [] \<and> (\<forall>c \<in> set s. is_digit c) \<longrightarrow> py_int_str s = Some (decimal s))"
proof (intro conjI allI impI)
  assume "get jsondata ''line'' (get jsondata ''lineNumber'' PNone) = PStr ''null''"
  then show "map_sum id line (load_common self jsondata) = Inr PNone"
    using st by (simp add: load_common_def Let_def)
next
  fix s n
  assume h: "get jsondata ''line'' (get jsondata ''lineNumber'' PNone) = PStr s
      \<and> py_int_str s = Some n"
  then have "s \<noteq> ''null''" using py_int_str_null by auto
  then show "map_sum id line (load_common self jsondata) = Inr (PInt n)"
    using st h by (simp add: load_common_def Let_def)
next
  fix s
  assume h: "get jsondata ''line'' (get jsondata ''lineNumber'' PNone) = PStr s
      \<and> s \<noteq> ''null'' \<and> py_int_str s = None"
  then show "map_sum id line (load_common self jsondata) = Inr (PStr s)"
    using st by (simp add: load_common_def Let_def)
next
  fix s :: string
  assume "s \<noteq> [] \<and> (\<forall>c \<in> set s. is_digit c)"
  then show "py_int_str s = Some (decimal s)"
    using py_int_str_digits by blast
qed

theorem load_common_line_witness:
  "map_sum id line (load_common (init ''AX-1'')
      (fmap_of_list [(''status'', PStr ''OPEN''), (''line'', PStr ''null'')])) = Inr PNone
   \<and> py_int_str ''42'' = Some 42
   \<and> map_sum id line (load_common (init ''AX-1'')
      (fmap_of_list [(''status'', PStr ''OPEN''), (''line'', PStr ''42'')])) = Inr (PInt 42)
   \<and> map_sum id line (load_common (init ''AX-1'')
      (fmap_of_list [(''status'', PStr ''OPEN''), (''line'', PStr ''12a'')])) = Inr (PStr ''12a'')"
proof -
  let ?null = "fmap_of_list [(''status'', PStr ''OPEN''), (''line'', PStr ''null'')]"
  let ?num = "fmap_of_list [(''status'', PStr ''OPEN''), (''line'', PStr ''42'')]"
  let ?bad = "fmap_of_list [(''status'', PStr ''OPEN''), (''line'', PStr ''12a'')]"
  have st: "fmlookup ?null ''status'' = Some (PStr ''OPEN'')"
    "fmlookup ?num ''status'' = Some (PStr ''OPEN'')"
    "fmlookup ?bad ''status'' = Some (PStr ''OPEN'')"
    by simp_all
  have g1: "get ?null ''line'' (get ?null ''lineNumber'' PNone) = PStr ''null''"
    by (simp add: get_def)
  have d: "''42'' \<noteq> [] \<and> (\<forall>c \<in> set ''42''. is_digit c)"
    by (simp add: is_digit_def)
  have dec: "decimal ''42'' = 42"
    by (simp add: decimal_def digit_val_def)
  note r1 = load_common_line [OF st(1), of "init ''AX-1''", THEN conjunct1, rule_format, OF g1]
  have p: "py_int_str ''42'' = Some 42"
    using load_common_line [OF st(2), of "init ''AX-1''", THEN conjunct2, THEN conjunct2,
        THEN conjunct2, rule_format, OF d]
    by (simp only: dec)
  have g2: "get ?num ''line'' (get ?num ''lineNumber'' PNone) = PStr ''42''
      \<and> py_int_str ''42'' = Some 42"
    using p by (simp add: get_def)
  have g3: "get ?bad ''line'' (get ?bad ''lineNumber'' PNone) = PStr ''12a''
      \<and> ''12a'' \<noteq> ''null'' \<and> py_int_str ''12a'' = None"
    using py_int_str_12a by (simp add: get_def)
  note r2 = load_common_line [OF st(2), of "init ''AX-1''", THEN conjunct2, THEN conjunct1,
      rule_format, OF g2]
  note r3 = load_common_line [OF st(3), of "init ''AX-1''", THEN conjunct2, THEN conjunct2,
      THEN conjunct1, rule_format, OF g3]
  show ?thesis
    by (intro conjI r1 p r2 r3)
qed

section \<open>The derived file path: properties\<close>













end
